theory Spec2Isabelle
  imports Main
begin

section \<open>Selectors of the compare page: the data model\<close>

text \<open>
  The selectors read the URL parameters (\<open>props\<close>) and slices of the redux state and
  derive the filter types, the combined type with its combined ids, the joined items and
  the grouped series. Every JavaScript value that may be \<open>undefined\<close> is an
  \<open>option\<close> here (\<open>None\<close> is \<open>undefined\<close>), and a statement that throws a
  \<open>TypeError\<close> returns \<open>Inl TypeError\<close>.
\<close>

datatype error = TypeError

text \<open>An entry of the facet-type catalog; the selectors modelled here read its \<open>value\<close>.\<close>

record facet_type =
  ft_value :: string

text \<open>
  Modelled from the spec: the catalog \<open>facetTypes\<close> of \<open>../../constants\<close>, which is
  imported by the selectors and is not among the sources. The spec gives the three facet
  types location, clientIsp and transitIsp, and the fallback of \<open>extractFacetType\<close> to
  the first entry is documented as "using location", so location comes first.
\<close>

definition facetTypes :: "facet_type list" where
  "facetTypes =
     [\<lparr>ft_value = ''location''\<rparr>, \<lparr>ft_value = ''clientIsp''\<rparr>, \<lparr>ft_value = ''transitIsp''\<rparr>]"

text \<open>The URL parameters the selectors read; \<open>'a\<close> is the type of entity ids.\<close>

record 'a props =
  p_facetType :: "string option"
  p_facetItemIds :: "'a list option"
  p_filter1Ids :: "'a list option"
  p_filter2Ids :: "'a list option"
  p_breakdownBy :: "string option"

section \<open>Input selectors\<close>

text \<open>
  \<open>extractFacetType\<close>: the catalog entry whose value is the given one, and the first
  entry of the catalog when there is none (the warning of development builds is not
  modelled).
\<close>

definition extractFacetType :: "string option \<Rightarrow> facet_type" where
  "extractFacetType facetTypeValue =
     (case find (\<lambda>facetType. Some (ft_value facetType) = facetTypeValue) facetTypes of
        Some facetType \<Rightarrow> facetType
      | None \<Rightarrow> facetTypes ! 0)"

definition getFacetType :: "'a props \<Rightarrow> facet_type" where
  "getFacetType props = extractFacetType (p_facetType props)"

definition getFacetItemIds :: "'a props \<Rightarrow> 'a list option" where
  "getFacetItemIds props = p_facetItemIds props"

definition getFilter1Ids :: "'a props \<Rightarrow> 'a list option" where
  "getFilter1Ids props = p_filter1Ids props"

definition getFilter2Ids :: "'a props \<Rightarrow> 'a list option" where
  "getFilter2Ids props = p_filter2Ids props"

definition getBreakdownBy :: "'a props \<Rightarrow> string option" where
  "getBreakdownBy props = p_breakdownBy props"

text \<open>\<open>getFilterTypes\<close>: which type is filter1 and which one is filter2.\<close>

definition getFilterTypes :: "'a props \<Rightarrow> facet_type list" where
  "getFilterTypes props =
     (let facetType = getFacetType props in
      if ft_value facetType = ''location'' then
        [extractFacetType (Some ''clientIsp''), extractFacetType (Some ''transitIsp'')]
      else if ft_value facetType = ''clientIsp'' then
        [extractFacetType (Some ''location''), extractFacetType (Some ''transitIsp'')]
      else if ft_value facetType = ''transitIsp'' then
        [extractFacetType (Some ''location''), extractFacetType (Some ''clientIsp'')]
      else [])"

section \<open>The combined type and the combined ids\<close>

text \<open>
  One element of the local array \<open>combined\<close> of \<open>getCombinedTypeAndIds\<close>. The facet's
  element has no \<open>breakdownBy\<close> property (\<open>None\<close>); \<open>dim_sort\<close> is \<open>None\<close> when
  \<open>sortValues\<close> has no number for the value.
\<close>

record 'a dimension =
  dim_value :: string
  dim_type :: string
  dim_breakdownBy :: "bool option"
  dim_ids :: "'a list"
  dim_sort :: "int option"

text \<open>
  The four functions \<open>makeId\<close> of the combined stores are imported and not among the
  sources: they are parameters of the model, \<open>'k\<close> being the type of composite keys.
\<close>

record ('a, 'k) make_ids =
  makeLocationClientIspId :: "'a \<Rightarrow> 'a \<Rightarrow> 'k"
  makeLocationClientIspTransitIspId :: "'a \<Rightarrow> 'a \<Rightarrow> 'a \<Rightarrow> 'k"
  makeLocationTransitIspId :: "'a \<Rightarrow> 'a \<Rightarrow> 'k"
  makeClientIspTransitIspId :: "'a \<Rightarrow> 'a \<Rightarrow> 'k"

text \<open>An element of \<open>combinedIds\<close>; only the three-way case sets \<open>breakdownByItemId\<close>.\<close>

record ('a, 'k) combined_id =
  facetItemId :: 'a
  breakdownByItemId :: "'a option"
  filterItemId :: 'a
  combined :: 'k

record ('a, 'k) type_and_ids =
  combinedType :: string
  combinedIds :: "('a, 'k) combined_id list"

definition sortValues :: "string \<Rightarrow> int option" where
  "sortValues v =
     (if v = ''location'' then Some 0
      else if v = ''clientIsp'' then Some 1
      else if v = ''transitIsp'' then Some 2
      else None)"

text \<open>
  The comparison function \<open>(a, b) => a.sort - b.sort\<close>. Without a number on either side
  the difference is \<open>NaN\<close>, which \<open>Array.prototype.sort\<close> reads as \<open>0\<close>.
\<close>

definition compareSort :: "'a dimension \<Rightarrow> 'a dimension \<Rightarrow> int" where
  "compareSort a b =
     (case dim_sort a of
        None \<Rightarrow> 0
      | Some x \<Rightarrow> (case dim_sort b of None \<Rightarrow> 0 | Some y \<Rightarrow> x - y))"

text \<open>
  \<open>combined.sort(...)\<close> as a stable insertion sort: an element goes behind the elements
  that do not compare greater. The dimensions of a selection have distinct sort values, so
  that the sorted order does not depend on the algorithm of the engine.
\<close>

fun insertDimension :: "'a dimension \<Rightarrow> 'a dimension list \<Rightarrow> 'a dimension list" where
  "insertDimension x [] = [x]"
| "insertDimension x (y # ys) =
     (if compareSort x y < 0 then x # y # ys else y # insertDimension x ys)"

definition sortDimensions :: "'a dimension list \<Rightarrow> 'a dimension list" where
  "sortDimensions xs = foldl (\<lambda>acc x. insertDimension x acc) [] xs"

text \<open>\<open>values.join('-')\<close>.\<close>

fun joinDash :: "string list \<Rightarrow> string" where
  "joinDash [] = ''''"
| "joinDash [v] = v"
| "joinDash (v # w # vs) = v @ ''-'' @ joinDash (w # vs)"

text \<open>\<open>ids && ids.length\<close>: the list is there and is not empty.\<close>

definition hasIds :: "'a list option \<Rightarrow> bool" where
  "hasIds ids = (case ids of None \<Rightarrow> False | Some xs \<Rightarrow> xs \<noteq> [])"

text \<open>\<open>ids || []\<close>; an array, also an empty one, is truthy.\<close>

definition orEmpty :: "'a list option \<Rightarrow> 'a list" where
  "orEmpty ids = (case ids of None \<Rightarrow> [] | Some xs \<Rightarrow> xs)"

text \<open>\<open>xs[i]\<close>, \<open>None\<close> (undefined) beyond the end.\<close>

definition at :: "'x list \<Rightarrow> nat \<Rightarrow> 'x option" where
  "at xs i = (if i < length xs then Some (xs ! i) else None)"

text \<open>
  The active dimensions (lines 416 to 439): the facet always, a filter when it has ids.
  Reading \<open>filter1Type.value\<close> of a missing filter type throws.
\<close>

definition activeDimensions ::
  "facet_type \<Rightarrow> 'a list option \<Rightarrow> facet_type list \<Rightarrow> 'a list option \<Rightarrow> 'a list option \<Rightarrow>
   string option \<Rightarrow> error + 'a dimension list" where
  "activeDimensions facetType facetItemIds filterTypes filter1Ids filter2Ids breakdownBy =
     (let combined0 =
        [\<lparr>dim_value = ft_value facetType, dim_type = ''facet'', dim_breakdownBy = None,
          dim_ids = orEmpty facetItemIds,
          dim_sort = sortValues (ft_value facetType)\<rparr>]
      in
      case (if hasIds filter1Ids then
              (case at filterTypes 0 of
                 None \<Rightarrow> Inl TypeError
               | Some filter1Type \<Rightarrow>
                   Inr (combined0 @
                     [\<lparr>dim_value = ft_value filter1Type, dim_type = ''filter1'',
                       dim_breakdownBy = Some (breakdownBy = Some ''filter1''),
                       dim_ids = orEmpty filter1Ids,
                       dim_sort = sortValues (ft_value filter1Type)\<rparr>]))
            else Inr combined0) of
        Inl e \<Rightarrow> Inl e
      | Inr combined1 \<Rightarrow>
          (if hasIds filter2Ids then
             (case at filterTypes 1 of
                None \<Rightarrow> Inl TypeError
              | Some filter2Type \<Rightarrow>
                  Inr (combined1 @
                    [\<lparr>dim_value = ft_value filter2Type, dim_type = ''filter2'',
                      dim_breakdownBy = Some (breakdownBy = Some ''filter2''),
                      dim_ids = orEmpty filter2Ids,
                      dim_sort = sortValues (ft_value filter2Type)\<rparr>]))
           else Inr combined1))"

text \<open>
  Two nested \<open>forEach\<close> loops over \<open>combined[0].ids\<close> and \<open>combined[1].ids\<close>, pushing
  one element each time; \<open>dims\<close> is the sorted array \<open>combined\<close>. The inner array is
  read in the body of the outer loop, so a missing \<open>combined[1]\<close> throws only when the
  outer list has an element.
\<close>

definition pairIds ::
  "('a \<Rightarrow> 'a \<Rightarrow> 'k) \<Rightarrow> 'a dimension list \<Rightarrow> error + ('a, 'k) combined_id list" where
  "pairIds makeId dims =
     (case at dims 0 of
        None \<Rightarrow> Inl TypeError
      | Some firsts \<Rightarrow>
          (if dim_ids firsts = [] then Inr []
           else (case at dims 1 of
                   None \<Rightarrow> Inl TypeError
                 | Some seconds \<Rightarrow>
                     Inr (concat (map (\<lambda>firstId. map (\<lambda>secondId.
                       \<lparr>facetItemId = (if dim_type firsts = ''facet'' then firstId else secondId),
                        breakdownByItemId = None,
                        filterItemId = (if dim_type firsts \<noteq> ''facet'' then firstId else secondId),
                        combined = makeId firstId secondId\<rparr>)
                       (dim_ids seconds)) (dim_ids firsts))))))"

text \<open>The three nested loops of the case \<open>location-clientIsp-transitIsp\<close>.\<close>

definition tripleIds ::
  "('a \<Rightarrow> 'a \<Rightarrow> 'a \<Rightarrow> 'k) \<Rightarrow> 'a dimension list \<Rightarrow> error + ('a, 'k) combined_id list" where
  "tripleIds makeId dims =
     (case at dims 0 of
        None \<Rightarrow> Inl TypeError
      | Some locations \<Rightarrow>
          (if dim_ids locations = [] then Inr []
           else (case at dims 1 of
              None \<Rightarrow> Inl TypeError
            | Some clientIsps \<Rightarrow>
                (if dim_ids clientIsps = [] then Inr []
                 else (case at dims 2 of
                    None \<Rightarrow> Inl TypeError
                  | Some transitIsps \<Rightarrow>
                      Inr (concat (map (\<lambda>locationId. concat (map (\<lambda>clientIspId.
                        map (\<lambda>transitIspId.
                          \<lparr>facetItemId =
                             (if dim_type locations = ''facet'' then locationId
                              else if dim_type clientIsps = ''facet'' then clientIspId
                              else transitIspId),
                           breakdownByItemId =
                             Some (if dim_breakdownBy locations = Some True then locationId
                                   else if dim_breakdownBy clientIsps = Some True then clientIspId
                                   else transitIspId),
                           filterItemId =
                             (if dim_breakdownBy locations = Some False then locationId
                              else if dim_breakdownBy clientIsps = Some False then clientIspId
                              else transitIspId),
                           combined = makeId locationId clientIspId transitIspId\<rparr>)
                          (dim_ids transitIsps))
                        (dim_ids clientIsps))) (dim_ids locations))))))))"

text \<open>The \<open>switch\<close> on the combined type (lines 444 to 523).\<close>

definition computeCombinedIds ::
  "('a, 'k) make_ids \<Rightarrow> string \<Rightarrow> 'a dimension list \<Rightarrow> error + ('a, 'k) combined_id list" where
  "computeCombinedIds mk cType dims =
     (if cType = ''location-clientIsp'' then pairIds (makeLocationClientIspId mk) dims
      else if cType = ''location-transitIsp'' then pairIds (makeLocationTransitIspId mk) dims
      else if cType = ''clientIsp-transitIsp'' then pairIds (makeClientIspTransitIspId mk) dims
      else if cType = ''location-clientIsp-transitIsp'' then
        tripleIds (makeLocationClientIspTransitIspId mk) dims
      else Inr [])"

text \<open>The result function of the selector \<open>getCombinedTypeAndIds\<close>.\<close>

definition combinedTypeAndIds ::
  "('a, 'k) make_ids \<Rightarrow> facet_type \<Rightarrow> 'a list option \<Rightarrow> facet_type list \<Rightarrow> 'a list option \<Rightarrow>
   'a list option \<Rightarrow> string option \<Rightarrow> error + ('a, 'k) type_and_ids" where
  "combinedTypeAndIds mk facetType facetItemIds filterTypes filter1Ids filter2Ids breakdownBy =
     (case activeDimensions facetType facetItemIds filterTypes filter1Ids filter2Ids
             breakdownBy of
        Inl e \<Rightarrow> Inl e
      | Inr active \<Rightarrow>
          (let dims = sortDimensions active;
               cType = joinDash (map dim_value dims)
           in case computeCombinedIds mk cType dims of
                Inl e \<Rightarrow> Inl e
              | Inr ids \<Rightarrow> Inr \<lparr>combinedType = cType, combinedIds = ids\<rparr>))"

text \<open>The selector: the result function on what the input selectors return.\<close>

definition getCombinedTypeAndIds ::
  "('a, 'k) make_ids \<Rightarrow> 'a props \<Rightarrow> error + ('a, 'k) type_and_ids" where
  "getCombinedTypeAndIds mk props =
     combinedTypeAndIds mk (getFacetType props) (getFacetItemIds props) (getFilterTypes props)
       (getFilter1Ids props) (getFilter2Ids props) (getBreakdownBy props)"

section \<open>Fetched resources and their status\<close>

text \<open>
  Modelled from the spec: the status of a fetchable resource, one of not-fetched, fetching,
  success and error. The function \<open>status\<close> of \<open>../status\<close> is imported and not among
  the sources; it is a parameter \<open>st\<close> of the model, applied to one resource or to an
  array of statuses.
\<close>

datatype status = NotFetched | Fetching | Success | Error

datatype ('r, 's) status_input = Resource 'r | Statuses "'s list"

text \<open>
  A fetchable resource: the selectors read its \<open>data\<close>, an array or \<open>undefined\<close>; what
  else it holds (the fields that \<open>status\<close> reads) is the extension of the record.
\<close>

record 'd resource =
  res_data :: "'d option"

text \<open>
  Modelled from the spec: a resource that carries its status, and the status combinator
  with the precedence error, fetching, not-fetched, success. It instantiates the parameter
  \<open>st\<close> where a property is evaluated on concrete data.
\<close>

record 'd fetched = "'d resource" +
  res_status :: status

fun statusOf :: "('d fetched, status) status_input \<Rightarrow> status" where
  "statusOf (Resource r) = res_status r"
| "statusOf (Statuses ss) =
     (if Error \<in> set ss then Error
      else if Fetching \<in> set ss then Fetching
      else if NotFetched \<in> set ss then NotFetched
      else Success)"

text \<open>
  Modelled from the spec: the composite keys of the identity combiner, here the list of
  the ids in the order location, clientIsp, transitIsp. It instantiates the parameter
  \<open>mk\<close> where a property is evaluated on concrete data.
\<close>

definition listIds :: "('a, 'a list) make_ids" where
  "listIds =
     \<lparr>makeLocationClientIspId = (\<lambda>locationId clientIspId. [locationId, clientIspId]),
      makeLocationClientIspTransitIspId =
        (\<lambda>locationId clientIspId transitIspId. [locationId, clientIspId, transitIspId]),
      makeLocationTransitIspId = (\<lambda>locationId transitIspId. [locationId, transitIspId]),
      makeClientIspTransitIspId = (\<lambda>clientIspId transitIspId. [clientIspId, transitIspId])\<rparr>"

section \<open>The top items of a filter\<close>

text \<open>A filter type as \<open>topFilter\<close> reads it: the value and the \<open>idKey\<close>.\<close>

record filter_type = facet_type +
  ft_idKey :: string

text \<open>
  \<open>topKeyFromTypes\<close>: a prefix or suffix that no branch sets stays \<open>undefined\<close> and is
  printed so by the template string.
\<close>

definition topKeyFromTypes :: "'m facet_type_scheme \<Rightarrow> 'n facet_type_scheme \<Rightarrow> string" where
  "topKeyFromTypes facetType filterType =
     (let prefix =
        (if ft_value filterType = ''location'' then ''locations''
         else if ft_value filterType = ''clientIsp'' then ''clientIsps''
         else if ft_value filterType = ''transitIsp'' then ''transitIsps''
         else ''undefined'');
          suffix =
        (if ft_value facetType = ''location'' then ''ForLocations''
         else if ft_value facetType = ''clientIsp'' then ''ForClientIsps''
         else if ft_value facetType = ''transitIsp'' then ''ForTransitIsps''
         else ''undefined'')
      in prefix @ suffix)"

record ('i, 's) top_filter =
  tf_data :: "'i list"
  tf_status :: 's

text \<open>
  \<open>topFilter\<close>: a top item is an object, here the function from property names to
  values of type \<open>'v\<close> (which has the value \<open>undefined\<close> of a missing property), and
  \<open>topState\<close> maps the top keys to resources. Reading \<open>data\<close> of a missing entry throws.
  \<open>filterIds\<close> defaults to the empty array.
\<close>

type_synonym 'v top_item = "string \<Rightarrow> 'v"

definition topFilter ::
  "((('v top_item list, 'm) resource_scheme, 's) status_input \<Rightarrow> 's) \<Rightarrow>
   (string \<Rightarrow> ('v top_item list, 'm) resource_scheme option) \<Rightarrow>
   'f facet_type_scheme \<Rightarrow> filter_type \<Rightarrow> 'v list option \<Rightarrow>
   error + ('v top_item, 's) top_filter" where
  "topFilter st topState facetType filterType filterIds =
     (let topKey = topKeyFromTypes facetType filterType;
          idKey = ft_idKey filterType
      in case topState topKey of
           None \<Rightarrow> Inl TypeError
         | Some entry \<Rightarrow>
             (let topItems = orEmpty (res_data entry);
                  statusStr = st (Resource entry);
                  topItems = filter (\<lambda>d. \<not> List.member (orEmpty filterIds) (d idKey)) topItems
              in Inr \<lparr>tf_data = take 20 topItems, tf_status = statusStr\<rparr>))"

section \<open>The joined items\<close>

text \<open>A joined item: a combined id with the record stored under its composite key.\<close>

record ('a, 'k, 'r) item =
  item_id :: "('a, 'k) combined_id"
  item_data :: 'r

text \<open>The four combined types that have a store, which are the cases of the \<open>switch\<close>.\<close>

definition combinedTypes :: "string list" where
  "combinedTypes =
     [''location-clientIsp'', ''location-clientIsp-transitIsp'', ''location-transitIsp'',
      ''clientIsp-transitIsp'']"

text \<open>
  The local object \<open>sourceMap\<close> of \<open>getCombinedItems\<close>, read at a combined type. A store
  is a map from composite keys to records; a store that the state does not hold is
  \<open>None\<close>, as is the store of an unknown combined type.
\<close>

definition sourceMap ::
  "('k \<rightharpoonup> 'r) option \<Rightarrow> ('k \<rightharpoonup> 'r) option \<Rightarrow> ('k \<rightharpoonup> 'r) option \<Rightarrow> ('k \<rightharpoonup> 'r) option \<Rightarrow>
   string \<Rightarrow> ('k \<rightharpoonup> 'r) option" where
  "sourceMap locationClientIsps locationTransitIsps clientIspTransitIsps
     locationClientIspTransitIsps cType =
     (if cType = ''location-clientIsp'' then locationClientIsps
      else if cType = ''location-clientIsp-transitIsp'' then locationClientIspTransitIsps
      else if cType = ''location-transitIsp'' then locationTransitIsps
      else if cType = ''clientIsp-transitIsp'' then clientIspTransitIsps
      else None)"

text \<open>
  The result function of the selector \<open>getCombinedItems\<close>. The \<open>map\<close> to the pairs of id
  and looked-up record and the \<open>filter\<close> that drops the pairs without a record are one
  \<open>List.map_filter\<close>.
\<close>

definition getCombinedItems ::
  "('a, 'k) type_and_ids \<Rightarrow> ('k \<rightharpoonup> 'r) option \<Rightarrow> ('k \<rightharpoonup> 'r) option \<Rightarrow> ('k \<rightharpoonup> 'r) option \<Rightarrow>
   ('k \<rightharpoonup> 'r) option \<Rightarrow> ('a, 'k, 'r) item list" where
  "getCombinedItems typeAndIds locationClientIsps locationTransitIsps clientIspTransitIsps
     locationClientIspTransitIsps =
     (case sourceMap locationClientIsps locationTransitIsps clientIspTransitIsps
             locationClientIspTransitIsps (combinedType typeAndIds) of
        Some source \<Rightarrow>
          List.map_filter
            (\<lambda>id. map_option (\<lambda>d. \<lparr>item_id = id, item_data = d\<rparr>) (source (combined id)))
            (combinedIds typeAndIds)
      | None \<Rightarrow> [])"

section \<open>Grouping and combining\<close>

text \<open>A combined record: the time series and the hourly data of one composite key.\<close>

record ('t, 'h, 'm) time_data =
  timeSeries :: "('t, 'm) resource_scheme"
  hourly :: "('h, 'm) resource_scheme"

record ('t, 'h, 'm) combined_record =
  time :: "('t, 'h, 'm) time_data"

text \<open>
  What \<open>d3.nest().key(key).object(items)\<close> returns, as a map: under a key the items
  with that key, in their order, and no entry for a key that no item has. \<open>d3\<close> turns the
  keys into strings.
\<close>

definition nestObject :: "('x \<Rightarrow> string) \<Rightarrow> 'x list \<Rightarrow> (string \<rightharpoonup> 'x list)" where
  "nestObject key items k =
     (case filter (\<lambda>item. key item = k) items of [] \<Rightarrow> None | x # xs \<Rightarrow> Some (x # xs))"

text \<open>The grouped result: one level, by facet item, or two, by facet item and breakdown.\<close>

datatype 'c grouped =
  ByFacetItem "string \<rightharpoonup> 'c"
| ByFacetItemAndBreakdown "string \<rightharpoonup> (string \<rightharpoonup> 'c)"

text \<open>
  \<open>combineData\<close>: \<open>None\<close> is the result \<open>undefined\<close>. \<open>str\<close> is the conversion of an
  id to the string that is its key; a missing \<open>breakdownByItemId\<close> has the key
  \<open>undefined\<close>.
\<close>

definition combineData ::
  "(('a, 'k, 'r) item list \<Rightarrow> 'vm \<Rightarrow> 'c) \<Rightarrow> ('a \<Rightarrow> string) \<Rightarrow> string \<Rightarrow>
   ('a, 'k, 'r) item list option \<Rightarrow> 'vm \<Rightarrow> 'c grouped option" where
  "combineData combine str cType combinedItems viewMetric =
     (case combinedItems of
        None \<Rightarrow> None
      | Some items \<Rightarrow>
          if items = [] then None
          else
            (let facetKey = (\<lambda>item. str (facetItemId (item_id item)));
                 breakdownKey = (\<lambda>item. case breakdownByItemId (item_id item) of
                                            None \<Rightarrow> ''undefined'' | Some b \<Rightarrow> str b)
             in if cType = ''location-clientIsp-transitIsp'' then
                  Some (ByFacetItemAndBreakdown (\<lambda>facetItemKey.
                    map_option
                      (\<lambda>group. \<lambda>breakdownByItemKey.
                         map_option (\<lambda>leaf. combine leaf viewMetric)
                           (nestObject breakdownKey group breakdownByItemKey))
                      (nestObject facetKey items facetItemKey)))
                else
                  Some (ByFacetItem (\<lambda>facetItemKey.
                    map_option (\<lambda>group. combine group viewMetric)
                      (nestObject facetKey items facetItemKey)))))"

text \<open>The object that \<open>combineTimeSeries\<close> builds, first without and then with counts.\<close>

record ('s, 't) series =
  cs_statuses :: "'s list"
  cs_data :: "'t list"
  cs_status :: 's

record ('s, 't, 'n) counted_series = "('s, 't) series" +
  cs_counts :: 'n

text \<open>
  \<open>combineTimeSeries\<close>: the \<open>reduce\<close> pushes the status of every time series and the
  data of those that have data. \<open>computeTimeSeriesCounts\<close> is imported and not among the
  sources: it is the parameter \<open>cnt\<close>.
\<close>

definition combineTimeSeries ::
  "((('t, 'm) resource_scheme, 's) status_input \<Rightarrow> 's) \<Rightarrow> (('s, 't) series \<Rightarrow> 'n) \<Rightarrow>
   ('a, 'k, ('t, 'h, 'm) combined_record) item list \<Rightarrow> ('s, 't, 'n) counted_series" where
  "combineTimeSeries st cnt itemsToCombine =
     (let timeSeriesToCombine = map (\<lambda>item. timeSeries (time (item_data item))) itemsToCombine;
          reduced = foldl (\<lambda>(statuses, dat) timeSeriesObject.
                       (statuses @ [st (Resource timeSeriesObject)],
                        (case res_data timeSeriesObject of
                           Some d \<Rightarrow> dat @ [d]
                         | None \<Rightarrow> dat)))
                     ([], []) timeSeriesToCombine;
          combinedTimeSeries =
            \<lparr>cs_statuses = fst reduced, cs_data = snd reduced,
             cs_status = st (Statuses (fst reduced))\<rparr>
      in \<lparr>cs_statuses = cs_statuses combinedTimeSeries, cs_data = cs_data combinedTimeSeries,
          cs_status = cs_status combinedTimeSeries,
          cs_counts = cnt combinedTimeSeries\<rparr>)"

text \<open>The result function of the selector \<open>getCombinedTimeSeries\<close>.\<close>

definition getCombinedTimeSeries ::
  "((('t, 'm) resource_scheme, 's) status_input \<Rightarrow> 's) \<Rightarrow> (('s, 't) series \<Rightarrow> 'n) \<Rightarrow>
   ('a \<Rightarrow> string) \<Rightarrow> string \<Rightarrow> ('a, 'k, ('t, 'h, 'm) combined_record) item list option \<Rightarrow>
   'vm \<Rightarrow> ('s, 't, 'n) counted_series grouped option" where
  "getCombinedTimeSeries st cnt str cType combinedItems viewMetric =
     combineData (\<lambda>itemsToCombine vm. combineTimeSeries st cnt itemsToCombine) str cType
       combinedItems viewMetric"

text \<open>One object for each item that \<open>combineHourly\<close> combines.\<close>

record ('a, 'h, 's, 'w) hourly_object =
  ho_id :: 'a
  ho_data :: "'h option"
  ho_status :: 's
  ho_wrangled :: 'w

text \<open>\<open>combineHourly\<close>; \<open>wrangleHourly\<close> is imported and is the parameter \<open>wrangle\<close>.\<close>

definition combineHourly ::
  "((('h, 'm) resource_scheme, 's) status_input \<Rightarrow> 's) \<Rightarrow> ('h option \<Rightarrow> 'vm \<Rightarrow> 'w) \<Rightarrow>
   ('a, 'k, ('t, 'h, 'm) combined_record) item list \<Rightarrow> 'vm \<Rightarrow>
   ('a, 'h, 's, 'w) hourly_object list" where
  "combineHourly st wrangle itemsToCombine viewMetric =
     map (\<lambda>item.
       \<lparr>ho_id = filterItemId (item_id item),
        ho_data = res_data (hourly (time (item_data item))),
        ho_status = st (Resource (hourly (time (item_data item)))),
        ho_wrangled = wrangle (res_data (hourly (time (item_data item)))) viewMetric\<rparr>)
       itemsToCombine"

text \<open>The result function of the selector \<open>getCombinedHourly\<close>.\<close>

definition getCombinedHourly ::
  "((('h, 'm) resource_scheme, 's) status_input \<Rightarrow> 's) \<Rightarrow> ('h option \<Rightarrow> 'vm \<Rightarrow> 'w) \<Rightarrow>
   ('a \<Rightarrow> string) \<Rightarrow> string \<Rightarrow> ('a, 'k, ('t, 'h, 'm) combined_record) item list option \<Rightarrow>
   'vm \<Rightarrow> ('a, 'h, 's, 'w) hourly_object list grouped option" where
  "getCombinedHourly st wrangle str cType combinedItems viewMetric =
     combineData (combineHourly st wrangle) str cType combinedItems viewMetric"

section \<open>The vocabulary of the properties\<close>

text \<open>
  The properties speak of the dimensions of a selection. These definitions follow the
  words of the specification and are not part of the program.
\<close>

text \<open>The canonical order of the dimensions.\<close>

definition dimensionOrder :: "string list" where
  "dimensionOrder = [''location'', ''clientIsp'', ''transitIsp'']"

text \<open>
  The active dimensions of a selection with their id lists, in the order of the roles:
  the facet, then every filter whose id list is there and is not empty.
\<close>

definition selectedDimensions :: "'a props \<Rightarrow> (string \<times> 'a list) list" where
  "selectedDimensions props =
     (ft_value (getFacetType props), orEmpty (getFacetItemIds props)) #
     map (\<lambda>(filterType, ids). (ft_value filterType, orEmpty ids))
       (filter (\<lambda>(filterType, ids). hasIds ids)
          (zip (getFilterTypes props) [getFilter1Ids props, getFilter2Ids props]))"

text \<open>The ids that a selection gives to a dimension; none when it is not active.\<close>

definition idsOfDimension :: "'a props \<Rightarrow> string \<Rightarrow> 'a list" where
  "idsOfDimension props d =
     (case map_of (selectedDimensions props) d of None \<Rightarrow> [] | Some ids \<Rightarrow> ids)"

text \<open>
  A combination has one id of each dimension, in the canonical order; \<open>idOfDimension d\<close>
  is the id that the dimension \<open>d\<close> contributes to it.
\<close>

definition idOfDimension :: "string \<Rightarrow> 'a \<times> 'a \<times> 'a \<Rightarrow> 'a" where
  "idOfDimension d =
     (\<lambda>(locationId, clientIspId, transitIspId).
        if d = ''location'' then locationId
        else if d = ''clientIsp'' then clientIspId
        else transitIspId)"

text \<open>All combinations of a selection, the location varying slowest.\<close>

definition combinations :: "'a props \<Rightarrow> ('a \<times> 'a \<times> 'a) list" where
  "combinations props =
     List.product (idsOfDimension props ''location'')
       (List.product (idsOfDimension props ''clientIsp'') (idsOfDimension props ''transitIsp''))"

abbreviation locationType :: facet_type where
  "locationType \<equiv> \<lparr>ft_value = ''location''\<rparr>"

abbreviation clientIspType :: facet_type where
  "clientIspType \<equiv> \<lparr>ft_value = ''clientIsp''\<rparr>"

abbreviation transitIspType :: facet_type where
  "transitIspType \<equiv> \<lparr>ft_value = ''transitIsp''\<rparr>"

section \<open>The facet type and the filter types of a selection\<close>

lemma extractFacetType_known:
  "extractFacetType (Some ''location'') = locationType"
  "extractFacetType (Some ''clientIsp'') = clientIspType"
  "extractFacetType (Some ''transitIsp'') = transitIspType"
  by (simp_all add: extractFacetType_def facetTypes_def)

lemma extractFacetType_unknown:
  "v \<noteq> Some ''location'' \<Longrightarrow> v \<noteq> Some ''clientIsp'' \<Longrightarrow> v \<noteq> Some ''transitIsp'' \<Longrightarrow>
   extractFacetType v = locationType"
  by (auto simp add: extractFacetType_def facetTypes_def)

lemma getFacetType_eq:
  "getFacetType p =
     (if p_facetType p = Some ''clientIsp'' then clientIspType
      else if p_facetType p = Some ''transitIsp'' then transitIspType
      else locationType)"
  by (cases "p_facetType p = Some ''location''")
     (simp_all add: getFacetType_def extractFacetType_known extractFacetType_unknown)

lemma getFilterTypes_eq:
  "getFilterTypes p =
     (if p_facetType p = Some ''clientIsp'' then [locationType, transitIspType]
      else if p_facetType p = Some ''transitIsp'' then [locationType, clientIspType]
      else [clientIspType, transitIspType])"
  by (cases "p_facetType p = Some ''location''")
     (simp_all add: getFilterTypes_def getFacetType_def extractFacetType_known
        extractFacetType_unknown)

lemma resolved_cases:
  obtains
    (location) "getFacetType p = locationType" "getFilterTypes p = [clientIspType, transitIspType]"
  | (clientIsp) "getFacetType p = clientIspType" "getFilterTypes p = [locationType, transitIspType]"
  | (transitIsp) "getFacetType p = transitIspType" "getFilterTypes p = [locationType, clientIspType]"
  using getFacetType_eq [of p] getFilterTypes_eq [of p] by (auto split: if_splits)

section \<open>What the selector returns for each facet type\<close>

lemma concat_map_product2:
  "concat (map (\<lambda>x. map (\<lambda>y. f x y) ys) xs) = map (\<lambda>(x, y). f x y) (List.product xs ys)"
  by (induction xs) simp_all

lemma concat_map_product3:
  "concat (map (\<lambda>x. concat (map (\<lambda>y. map (\<lambda>z. f x y z) zs) ys)) xs) =
   map (\<lambda>(x, y, z). f x y z) (List.product xs (List.product ys zs))"
  by (induction xs) (simp_all add: concat_map_product2 case_prod_unfold)

lemma product_Nil_right: "List.product xs [] = []"
  by (induction xs) simp_all

lemma concat_map_Nil: "concat (map (\<lambda>x. []) xs) = []"
  by (induction xs) simp_all

lemma hasIds_orEmpty: "hasIds ids \<longleftrightarrow> orEmpty ids \<noteq> []"
  by (simp add: hasIds_def orEmpty_def split: option.splits)

lemma at_simps:
  "at (x # xs) 0 = Some x"
  "at [x] (Suc 0) = None"
  "at (x # y # xs) (Suc 0) = Some y"
  "at [x, y] 2 = None"
  "at (x # y # z # xs) 2 = Some z"
  by (simp_all add: at_def)

lemmas unfold_combined =
  combinedTypeAndIds_def activeDimensions_def at_simps sortDimensions_def
  compareSort_def sortValues_def computeCombinedIds_def tripleIds_def pairIds_def hasIds_orEmpty
  Let_def concat_map_product3 concat_map_product2 product_Nil_right concat_map_Nil

text \<open>
  The facet is the location: filter1 is the client ISP and filter2 the transit ISP. In
  the lists below \<open>l\<close>, \<open>c\<close> and \<open>t\<close> are the ids of the location, the client ISP and the
  transit ISP of a combination.
\<close>

lemma facet_location:
  "combinedTypeAndIds mk locationType fi [clientIspType, transitIspType] f1 f2 bd =
     Inr (if hasIds f1 \<and> hasIds f2 then
            \<lparr>combinedType = ''location-clientIsp-transitIsp'',
             combinedIds = map (\<lambda>(l, c, t).
               \<lparr>facetItemId = l,
                breakdownByItemId = Some (if bd = Some ''filter1'' then c else t),
                filterItemId = (if bd = Some ''filter1'' then t else c),
                combined = makeLocationClientIspTransitIspId mk l c t\<rparr>)
               (List.product (orEmpty fi) (List.product (orEmpty f1) (orEmpty f2)))\<rparr>
          else if hasIds f1 then
            \<lparr>combinedType = ''location-clientIsp'',
             combinedIds = map (\<lambda>(l, c).
               \<lparr>facetItemId = l, breakdownByItemId = None, filterItemId = c,
                combined = makeLocationClientIspId mk l c\<rparr>)
               (List.product (orEmpty fi) (orEmpty f1))\<rparr>
          else if hasIds f2 then
            \<lparr>combinedType = ''location-transitIsp'',
             combinedIds = map (\<lambda>(l, t).
               \<lparr>facetItemId = l, breakdownByItemId = None, filterItemId = t,
                combined = makeLocationTransitIspId mk l t\<rparr>)
               (List.product (orEmpty fi) (orEmpty f2))\<rparr>
          else \<lparr>combinedType = ''location'', combinedIds = []\<rparr>)"
  by (simp add: unfold_combined)

text \<open>The facet is the client ISP: filter1 is the location and filter2 the transit ISP.\<close>

lemma facet_clientIsp:
  "combinedTypeAndIds mk clientIspType fi [locationType, transitIspType] f1 f2 bd =
     Inr (if hasIds f1 \<and> hasIds f2 then
            \<lparr>combinedType = ''location-clientIsp-transitIsp'',
             combinedIds = map (\<lambda>(l, c, t).
               \<lparr>facetItemId = c,
                breakdownByItemId = Some (if bd = Some ''filter1'' then l else t),
                filterItemId = (if bd = Some ''filter1'' then t else l),
                combined = makeLocationClientIspTransitIspId mk l c t\<rparr>)
               (List.product (orEmpty f1) (List.product (orEmpty fi) (orEmpty f2)))\<rparr>
          else if hasIds f1 then
            \<lparr>combinedType = ''location-clientIsp'',
             combinedIds = map (\<lambda>(l, c).
               \<lparr>facetItemId = c, breakdownByItemId = None, filterItemId = l,
                combined = makeLocationClientIspId mk l c\<rparr>)
               (List.product (orEmpty f1) (orEmpty fi))\<rparr>
          else if hasIds f2 then
            \<lparr>combinedType = ''clientIsp-transitIsp'',
             combinedIds = map (\<lambda>(c, t).
               \<lparr>facetItemId = c, breakdownByItemId = None, filterItemId = t,
                combined = makeClientIspTransitIspId mk c t\<rparr>)
               (List.product (orEmpty fi) (orEmpty f2))\<rparr>
          else \<lparr>combinedType = ''clientIsp'', combinedIds = []\<rparr>)"
  by (simp add: unfold_combined)

text \<open>The facet is the transit ISP: filter1 is the location and filter2 the client ISP.\<close>

lemma facet_transitIsp:
  "combinedTypeAndIds mk transitIspType fi [locationType, clientIspType] f1 f2 bd =
     Inr (if hasIds f1 \<and> hasIds f2 then
            \<lparr>combinedType = ''location-clientIsp-transitIsp'',
             combinedIds = map (\<lambda>(l, c, t).
               \<lparr>facetItemId = t,
                breakdownByItemId =
                  Some (if bd = Some ''filter1'' then l else if bd = Some ''filter2'' then c else t),
                filterItemId = (if bd = Some ''filter1'' then c else l),
                combined = makeLocationClientIspTransitIspId mk l c t\<rparr>)
               (List.product (orEmpty f1) (List.product (orEmpty f2) (orEmpty fi)))\<rparr>
          else if hasIds f1 then
            \<lparr>combinedType = ''location-transitIsp'',
             combinedIds = map (\<lambda>(l, t).
               \<lparr>facetItemId = t, breakdownByItemId = None, filterItemId = l,
                combined = makeLocationTransitIspId mk l t\<rparr>)
               (List.product (orEmpty f1) (orEmpty fi))\<rparr>
          else if hasIds f2 then
            \<lparr>combinedType = ''clientIsp-transitIsp'',
             combinedIds = map (\<lambda>(c, t).
               \<lparr>facetItemId = t, breakdownByItemId = None, filterItemId = c,
                combined = makeClientIspTransitIspId mk c t\<rparr>)
               (List.product (orEmpty f2) (orEmpty fi))\<rparr>
          else \<lparr>combinedType = ''transitIsp'', combinedIds = []\<rparr>)"
  by (simp add: unfold_combined)

lemmas unfold_selection =
  getCombinedTypeAndIds_def selectedDimensions_def dimensionOrder_def getFilter1Ids_def
  getFilter2Ids_def getFacetItemIds_def getBreakdownBy_def

lemmas unfold_combinations =
  combinations_def idsOfDimension_def idOfDimension_def

section \<open>The combined type\<close>

text \<open>
  The combined type is the canonical order restricted to the active dimensions and joined
  with dashes; the selector never throws on a selection.
\<close>

lemma combinedType_canonical:
  "\<exists>ids. getCombinedTypeAndIds mk p =
     Inr \<lparr>combinedType =
            joinDash (filter (\<lambda>d. d \<in> fst ` set (selectedDimensions p)) dimensionOrder),
          combinedIds = ids\<rparr>"
proof (cases p rule: resolved_cases)
  case location
  then show ?thesis by (simp add: unfold_selection facet_location)
next
  case clientIsp
  then show ?thesis by (simp add: unfold_selection facet_clientIsp)
next
  case transitIsp
  then show ?thesis by (simp add: unfold_selection facet_transitIsp)
qed

text \<open>
  Claim C1. The combined type that \<open>getCombinedTypeAndIds\<close> returns depends only on the
  set of the active dimensions (the facet's and those of the filters with ids), not on the
  roles they have: two selections with the same set of active dimensions have the same
  combined type, whatever their roles, id lists and breakdown are.
\<close>

theorem combinedType_of_active_set:
  assumes "fst ` set (selectedDimensions p) = fst ` set (selectedDimensions q)"
  shows "\<exists>r s. getCombinedTypeAndIds mk p = Inr r \<and> getCombinedTypeAndIds mk' q = Inr s \<and>
           combinedType r = combinedType s"
proof -
  obtain ids where "getCombinedTypeAndIds mk p =
     Inr \<lparr>combinedType =
            joinDash (filter (\<lambda>d. d \<in> fst ` set (selectedDimensions p)) dimensionOrder),
          combinedIds = ids\<rparr>"
    using combinedType_canonical by blast
  moreover obtain ids' where "getCombinedTypeAndIds mk' q =
     Inr \<lparr>combinedType =
            joinDash (filter (\<lambda>d. d \<in> fst ` set (selectedDimensions q)) dimensionOrder),
          combinedIds = ids'\<rparr>"
    using combinedType_canonical by blast
  ultimately show ?thesis using assms by simp
qed

text \<open>
  The facet client ISP with the location as filter1, and the facet location with the
  client ISP as filter1, have the same combined type.
\<close>

theorem combinedType_of_active_set_witness:
  "\<exists>r s.
     getCombinedTypeAndIds listIds
       \<lparr>p_facetType = Some ''clientIsp'', p_facetItemIds = Some [1, 2 :: int],
        p_filter1Ids = Some [7], p_filter2Ids = None, p_breakdownBy = None\<rparr> = Inr r \<and>
     getCombinedTypeAndIds listIds
       \<lparr>p_facetType = Some ''location'', p_facetItemIds = Some [7 :: int],
        p_filter1Ids = Some [1, 2], p_filter2Ids = Some [], p_breakdownBy = None\<rparr> = Inr s \<and>
     combinedType r = combinedType s"
proof -
  have "fst ` set (selectedDimensions
      \<lparr>p_facetType = Some ''clientIsp'', p_facetItemIds = Some [1, 2 :: int],
       p_filter1Ids = Some [7], p_filter2Ids = None, p_breakdownBy = None\<rparr>) =
   fst ` set (selectedDimensions
      \<lparr>p_facetType = Some ''location'', p_facetItemIds = Some [7 :: int],
       p_filter1Ids = Some [1, 2], p_filter2Ids = Some [], p_breakdownBy = None\<rparr>)"
    by (simp add: selectedDimensions_def getFacetType_eq getFilterTypes_eq getFilter1Ids_def
        getFilter2Ids_def hasIds_def insert_commute)
  then show ?thesis by (rule combinedType_of_active_set)
qed

section \<open>The roles in the three-way case\<close>

text \<open>
  Claim C2. In a selection with three dimensions (both filters have ids) whose
  \<open>breakdownBy\<close> is \<open>filter1\<close>, the combined type is
  \<open>location-clientIsp-transitIsp\<close> and there is one element of \<open>combinedIds\<close> for every
  combination; its \<open>breakdownByItemId\<close> is the id that the dimension of filter1
  contributes to the combination and its \<open>filterItemId\<close> the id that the dimension of
  filter2 contributes.
\<close>

theorem breakdown_by_filter1:
  assumes "getFilterTypes p = [filter1Type, filter2Type]"
    and "hasIds (getFilter1Ids p)" and "hasIds (getFilter2Ids p)"
    and "getBreakdownBy p = Some ''filter1''"
  shows "getCombinedTypeAndIds mk p =
     Inr \<lparr>combinedType = ''location-clientIsp-transitIsp'',
          combinedIds = map (\<lambda>(locationId, clientIspId, transitIspId).
            \<lparr>facetItemId =
               idOfDimension (ft_value (getFacetType p)) (locationId, clientIspId, transitIspId),
             breakdownByItemId =
               Some (idOfDimension (ft_value filter1Type) (locationId, clientIspId, transitIspId)),
             filterItemId =
               idOfDimension (ft_value filter2Type) (locationId, clientIspId, transitIspId),
             combined = makeLocationClientIspTransitIspId mk locationId clientIspId transitIspId\<rparr>)
            (combinations p)\<rparr>"
proof (cases p rule: resolved_cases)
  case location
  with assms(1) have "filter1Type = clientIspType" and "filter2Type = transitIspType"
    by simp_all
  with assms(2-4) location show ?thesis
    by (simp add: unfold_selection unfold_combinations facet_location)
next
  case clientIsp
  with assms(1) have "filter1Type = locationType" and "filter2Type = transitIspType"
    by simp_all
  with assms(2-4) clientIsp show ?thesis
    by (simp add: unfold_selection unfold_combinations facet_clientIsp)
next
  case transitIsp
  with assms(1) have "filter1Type = locationType" and "filter2Type = clientIspType"
    by simp_all
  with assms(2-4) transitIsp show ?thesis
    by (simp add: unfold_selection unfold_combinations facet_transitIsp)
qed

text \<open>
  The facet transit ISP with ids 1 and 2, the location 10 as filter1 and the client ISPs
  20 and 21 as filter2: the breakdown id is always the location's.
\<close>

theorem breakdown_by_filter1_witness:
  "getCombinedTypeAndIds listIds
     \<lparr>p_facetType = Some ''transitIsp'', p_facetItemIds = Some [1, 2 :: int],
      p_filter1Ids = Some [10], p_filter2Ids = Some [20, 21],
      p_breakdownBy = Some ''filter1''\<rparr> =
   Inr \<lparr>combinedType = ''location-clientIsp-transitIsp'',
        combinedIds =
          [\<lparr>facetItemId = 1, breakdownByItemId = Some 10, filterItemId = 20,
            combined = [10, 20, 1]\<rparr>,
           \<lparr>facetItemId = 2, breakdownByItemId = Some 10, filterItemId = 20,
            combined = [10, 20, 2]\<rparr>,
           \<lparr>facetItemId = 1, breakdownByItemId = Some 10, filterItemId = 21,
            combined = [10, 21, 1]\<rparr>,
           \<lparr>facetItemId = 2, breakdownByItemId = Some 10, filterItemId = 21,
            combined = [10, 21, 2]\<rparr>]\<rparr>"
  using breakdown_by_filter1 [of
      "\<lparr>p_facetType = Some ''transitIsp'', p_facetItemIds = Some [1, 2 :: int],
        p_filter1Ids = Some [10], p_filter2Ids = Some [20, 21],
        p_breakdownBy = Some ''filter1''\<rparr>" locationType clientIspType listIds]
  by (simp add: getFilterTypes_eq getFacetType_eq getFilter1Ids_def getFilter2Ids_def
      getBreakdownBy_def getFacetItemIds_def hasIds_def orEmpty_def selectedDimensions_def
      unfold_combinations listIds_def)

text \<open>
  Claim C10. In a selection with three dimensions whose \<open>breakdownBy\<close> is neither
  \<open>filter1\<close> nor \<open>filter2\<close>, every element of \<open>combinedIds\<close> still has a
  \<open>breakdownByItemId\<close>, the id of the transit ISP of its combination, and its
  \<open>filterItemId\<close> is the id of the filter dimension that comes first in the canonical
  order. Both filters carry \<open>breakdownBy = false\<close> and the facet carries none.
\<close>

theorem breakdown_by_neither:
  assumes "getFilterTypes p = [filter1Type, filter2Type]"
    and "hasIds (getFilter1Ids p)" and "hasIds (getFilter2Ids p)"
    and "getBreakdownBy p \<noteq> Some ''filter1''" and "getBreakdownBy p \<noteq> Some ''filter2''"
    and "find (\<lambda>d. d \<in> {ft_value filter1Type, ft_value filter2Type}) dimensionOrder =
           Some firstFilter"
  shows "getCombinedTypeAndIds mk p =
     Inr \<lparr>combinedType = ''location-clientIsp-transitIsp'',
          combinedIds = map (\<lambda>(locationId, clientIspId, transitIspId).
            \<lparr>facetItemId =
               idOfDimension (ft_value (getFacetType p)) (locationId, clientIspId, transitIspId),
             breakdownByItemId = Some transitIspId,
             filterItemId = idOfDimension firstFilter (locationId, clientIspId, transitIspId),
             combined = makeLocationClientIspTransitIspId mk locationId clientIspId transitIspId\<rparr>)
            (combinations p)\<rparr> \<and>
     (\<exists>dims. activeDimensions (getFacetType p) (getFacetItemIds p) (getFilterTypes p)
               (getFilter1Ids p) (getFilter2Ids p) (getBreakdownBy p) = Inr dims \<and>
             map dim_type dims = [''facet'', ''filter1'', ''filter2''] \<and>
             map dim_breakdownBy dims = [None, Some False, Some False])"
proof (cases p rule: resolved_cases)
  case location
  with assms(1) have ft: "filter1Type = clientIspType" "filter2Type = transitIspType"
    by simp_all
  with assms(6) have "firstFilter = ''clientIsp''"
    by (simp add: dimensionOrder_def)
  with ft assms(2-5) location show ?thesis
    by (simp add: unfold_selection unfold_combinations facet_location
        activeDimensions_def at_simps)
next
  case clientIsp
  with assms(1) have ft: "filter1Type = locationType" "filter2Type = transitIspType"
    by simp_all
  with assms(6) have "firstFilter = ''location''"
    by (simp add: dimensionOrder_def)
  with ft assms(2-5) clientIsp show ?thesis
    by (simp add: unfold_selection unfold_combinations facet_clientIsp
        activeDimensions_def at_simps)
next
  case transitIsp
  with assms(1) have ft: "filter1Type = locationType" "filter2Type = clientIspType"
    by simp_all
  with assms(6) have "firstFilter = ''location''"
    by (simp add: dimensionOrder_def)
  with ft assms(2-5) transitIsp show ?thesis
    by (simp add: unfold_selection unfold_combinations facet_transitIsp
        activeDimensions_def at_simps)
qed

text \<open>
  The facet location 1 with the client ISP 10 and the transit ISPs 20 and 21, broken down
  by \<open>none\<close>: the breakdown id is the transit ISP's and the filter id the client ISP's.
\<close>

theorem breakdown_by_neither_witness:
  "getCombinedTypeAndIds listIds
     \<lparr>p_facetType = Some ''location'', p_facetItemIds = Some [1 :: int],
      p_filter1Ids = Some [10], p_filter2Ids = Some [20, 21],
      p_breakdownBy = Some ''none''\<rparr> =
   Inr \<lparr>combinedType = ''location-clientIsp-transitIsp'',
        combinedIds =
          [\<lparr>facetItemId = 1, breakdownByItemId = Some 20, filterItemId = 10,
            combined = [1, 10, 20]\<rparr>,
           \<lparr>facetItemId = 1, breakdownByItemId = Some 21, filterItemId = 10,
            combined = [1, 10, 21]\<rparr>]\<rparr>"
proof -
  let ?p = "\<lparr>p_facetType = Some ''location'', p_facetItemIds = Some [1 :: int],
        p_filter1Ids = Some [10], p_filter2Ids = Some [20, 21],
        p_breakdownBy = Some ''none''\<rparr>"
  have 1: "getFilterTypes ?p = [clientIspType, transitIspType]"
    by (simp add: getFilterTypes_eq)
  have 2: "hasIds (getFilter1Ids ?p)" and 3: "hasIds (getFilter2Ids ?p)"
    by (simp_all add: getFilter1Ids_def getFilter2Ids_def hasIds_def)
  have 4: "getBreakdownBy ?p \<noteq> Some ''filter1''" and 5: "getBreakdownBy ?p \<noteq> Some ''filter2''"
    by (simp_all add: getBreakdownBy_def)
  have 6: "find (\<lambda>d. d \<in> {ft_value clientIspType, ft_value transitIspType}) dimensionOrder =
           Some ''clientIsp''"
    by (simp add: dimensionOrder_def)
  have 7: "combinations ?p = [(1, 10, 20), (1, 10, 21)]"
    by (simp add: unfold_combinations selectedDimensions_def getFilterTypes_eq getFacetType_eq
        getFilter1Ids_def getFilter2Ids_def getFacetItemIds_def hasIds_def orEmpty_def)
  have 8: "getFacetType ?p = locationType"
    by (simp add: getFacetType_eq)
  from breakdown_by_neither [OF 1 2 3 4 5 6, of listIds] show ?thesis
    unfolding 7 8 by (simp add: idOfDimension_def listIds_def)
qed

section \<open>The size of the cross product\<close>

text \<open>
  Claim C3. When the combined type is one of the four that the \<open>switch\<close> knows, the
  number of elements of \<open>combinedIds\<close> is the product of the lengths of the id lists of
  the active dimensions: of two lists with two active dimensions and of three with three.
\<close>

theorem combinedIds_length:
  assumes "getCombinedTypeAndIds mk p = Inr r"
    and "combinedType r \<in> set combinedTypes"
  shows "length (combinedIds r) = prod_list (map (\<lambda>(d, ids). length ids) (selectedDimensions p))"
proof (cases p rule: resolved_cases)
  case location
  with assms show ?thesis
    by (auto simp add: unfold_selection facet_location combinedTypes_def split: if_splits)
next
  case clientIsp
  with assms show ?thesis
    by (auto simp add: unfold_selection facet_clientIsp combinedTypes_def split: if_splits)
next
  case transitIsp
  with assms show ?thesis
    by (auto simp add: unfold_selection facet_transitIsp combinedTypes_def split: if_splits)
qed

text \<open>
  The facet client ISP with two ids and three transit ISPs as filter2 give six elements.
\<close>

theorem combinedIds_length_witness:
  "\<exists>r. getCombinedTypeAndIds listIds
          \<lparr>p_facetType = Some ''clientIsp'', p_facetItemIds = Some [1, 2 :: int],
           p_filter1Ids = None, p_filter2Ids = Some [5, 6, 7], p_breakdownBy = None\<rparr> = Inr r \<and>
        combinedType r = ''clientIsp-transitIsp'' \<and>
        length (combinedIds r) = 2 * 3"
proof -
  let ?p = "\<lparr>p_facetType = Some ''clientIsp'', p_facetItemIds = Some [1, 2 :: int],
           p_filter1Ids = None, p_filter2Ids = Some [5, 6, 7], p_breakdownBy = None\<rparr>"
  obtain ids where r: "getCombinedTypeAndIds listIds ?p =
      Inr \<lparr>combinedType = ''clientIsp-transitIsp'', combinedIds = ids\<rparr>"
    by (simp add: getCombinedTypeAndIds_def getFacetType_eq getFilterTypes_eq getFilter1Ids_def
        getFilter2Ids_def getFacetItemIds_def getBreakdownBy_def facet_clientIsp hasIds_def)
  have "combinedType \<lparr>combinedType = ''clientIsp-transitIsp'', combinedIds = ids\<rparr>
          \<in> set combinedTypes"
    by (simp add: combinedTypes_def)
  from combinedIds_length [OF r this]
  have "length ids = 2 * 3"
    by (simp add: selectedDimensions_def getFacetType_eq getFilterTypes_eq getFilter1Ids_def
        getFilter2Ids_def getFacetItemIds_def hasIds_def orEmpty_def)
  with r show ?thesis by simp
qed

section \<open>A facet without filters\<close>

text \<open>
  Claim C4, as stated: for the facet type location with the facet items 1 and 2 and no
  active filter the selector returns the empty string as combined type and no combined
  ids. The combined type is not empty: the facet is always among the active dimensions,
  so that the combined type is the facet's own value.
\<close>

theorem facet_only_counterexample:
  "getCombinedTypeAndIds listIds
     \<lparr>p_facetType = Some ''location'', p_facetItemIds = Some [1, 2 :: int],
      p_filter1Ids = None, p_filter2Ids = None, p_breakdownBy = None\<rparr> \<noteq>
   Inr \<lparr>combinedType = '''', combinedIds = []\<rparr>"
  by (simp add: getCombinedTypeAndIds_def getFacetType_eq getFilterTypes_eq getFilter1Ids_def
      getFilter2Ids_def getFacetItemIds_def getBreakdownBy_def facet_location hasIds_def)

text \<open>
  Claim C4, amended: for the facet type location with the facet items 1 and 2 and no
  active filter (each filter's id list is missing or empty) the selector returns the
  combined type \<open>location\<close>, which is none of the four of the \<open>switch\<close>, and no
  combined ids.
\<close>

theorem facet_only_location:
  assumes "\<not> hasIds f1" and "\<not> hasIds f2"
  shows "getCombinedTypeAndIds mk
     \<lparr>p_facetType = Some ''location'', p_facetItemIds = Some [1, 2 :: int],
      p_filter1Ids = f1, p_filter2Ids = f2, p_breakdownBy = bd\<rparr> =
   Inr \<lparr>combinedType = ''location'', combinedIds = []\<rparr>"
  using assms
  by (simp add: getCombinedTypeAndIds_def getFacetType_eq getFilterTypes_eq getFilter1Ids_def
      getFilter2Ids_def getFacetItemIds_def getBreakdownBy_def facet_location)

text \<open>Filter1 without an id list and filter2 with an empty one.\<close>

theorem facet_only_location_witness:
  "getCombinedTypeAndIds listIds
     \<lparr>p_facetType = Some ''location'', p_facetItemIds = Some [1, 2 :: int],
      p_filter1Ids = None, p_filter2Ids = Some [], p_breakdownBy = Some ''filter1''\<rparr> =
   Inr \<lparr>combinedType = ''location'', combinedIds = []\<rparr>"
  by (rule facet_only_location) (simp_all add: hasIds_def)

section \<open>The filter types\<close>

text \<open>
  Claim C6, as stated: for an input whose facet type value is none of location, clientIsp
  and transitIsp, \<open>getFilterTypes\<close> returns the empty list. It does not: \<open>getFacetType\<close>
  has replaced the unknown value by the first entry of the catalog before
  \<open>getFilterTypes\<close> compares it.
\<close>

theorem getFilterTypes_unknown_counterexample:
  "getFilterTypes
     \<lparr>p_facetType = Some ''country'', p_facetItemIds = Some [1 :: int], p_filter1Ids = None,
      p_filter2Ids = None, p_breakdownBy = None\<rparr> \<noteq> []"
  by (simp add: getFilterTypes_def getFacetType_def extractFacetType_def facetTypes_def)

text \<open>
  Claim C6, amended: for each of the three known facet types \<open>getFilterTypes\<close> returns
  the two other types in the fixed order, and for every other value of the input, a
  missing one too, the facet type is the location and \<open>getFilterTypes\<close> returns the
  client ISP and the transit ISP.
\<close>

theorem getFilterTypes_table:
  "getFilterTypes p =
     (if p_facetType p = Some ''location'' then [clientIspType, transitIspType]
      else if p_facetType p = Some ''clientIsp'' then [locationType, transitIspType]
      else if p_facetType p = Some ''transitIsp'' then [locationType, clientIspType]
      else [clientIspType, transitIspType]) \<and>
   getFacetType p =
     (if p_facetType p = Some ''location'' then locationType
      else if p_facetType p = Some ''clientIsp'' then clientIspType
      else if p_facetType p = Some ''transitIsp'' then transitIspType
      else locationType)"
  by (simp add: getFilterTypes_eq getFacetType_eq)

section \<open>The status of a combined time series\<close>

text \<open>The statuses that the \<open>reduce\<close> collects: one for every time series, in order.\<close>

lemma reduce_statuses:
  "fst (foldl (\<lambda>(statuses, dat) timeSeriesObject.
                 (statuses @ [st (Resource timeSeriesObject)],
                  (case res_data timeSeriesObject of Some d \<Rightarrow> dat @ [d] | None \<Rightarrow> dat)))
          (ss, ds) xs) = ss @ map (\<lambda>x. st (Resource x)) xs"
  by (induction xs arbitrary: ss ds) simp_all

lemma combineTimeSeries_statuses:
  "cs_statuses (combineTimeSeries st cnt itemsToCombine) =
     map (\<lambda>item. st (Resource (timeSeries (time (item_data item))))) itemsToCombine"
  by (simp add: combineTimeSeries_def Let_def reduce_statuses comp_def)

lemma combineTimeSeries_status:
  "cs_status (combineTimeSeries st cnt itemsToCombine) =
     st (Statuses (cs_statuses (combineTimeSeries st cnt itemsToCombine)))"
  by (simp add: combineTimeSeries_def Let_def)

text \<open>
  Claim C5. Let the status combinator return error for every array of statuses that holds
  an error (the head of its precedence error, fetching, not-fetched, success). If one of
  the items that \<open>combineTimeSeries\<close> combines has a time series whose status is error,
  the status of the combined object is error, whatever the other items are.
\<close>

theorem combineTimeSeries_error:
  assumes "\<And>ss. Error \<in> set ss \<Longrightarrow> st (Statuses ss) = Error"
    and "item \<in> set itemsToCombine"
    and "st (Resource (timeSeries (time (item_data item)))) = Error"
  shows "cs_status (combineTimeSeries st cnt itemsToCombine) = Error"
proof -
  have "Error \<in> set (cs_statuses (combineTimeSeries st cnt itemsToCombine))"
    unfolding combineTimeSeries_statuses using assms(2,3) by force
  then show ?thesis
    unfolding combineTimeSeries_status by (rule assms(1))
qed

text \<open>The status combinator of the specification returns error for such an array.\<close>

lemma statusOf_error: "Error \<in> set ss \<Longrightarrow> statusOf (Statuses ss) = Error"
  by simp

text \<open>Three items of one group: a success, an error and a fetching one.\<close>

theorem combineTimeSeries_error_witness:
  "cs_status (combineTimeSeries statusOf (\<lambda>s. length (cs_data s))
     [\<lparr>item_id = \<lparr>facetItemId = 1 :: int, breakdownByItemId = None, filterItemId = 10,
                  combined = [1, 10 :: int]\<rparr>,
       item_data = \<lparr>time = \<lparr>timeSeries = \<lparr>res_data = Some [3 :: int], res_status = Success\<rparr>,
                            hourly = \<lparr>res_data = Some [4 :: int], res_status = Success\<rparr>\<rparr>\<rparr>\<rparr>,
      \<lparr>item_id = \<lparr>facetItemId = 1, breakdownByItemId = None, filterItemId = 20,
                  combined = [1, 20]\<rparr>,
       item_data = \<lparr>time = \<lparr>timeSeries = \<lparr>res_data = None, res_status = Error\<rparr>,
                            hourly = \<lparr>res_data = None, res_status = Fetching\<rparr>\<rparr>\<rparr>\<rparr>,
      \<lparr>item_id = \<lparr>facetItemId = 1, breakdownByItemId = None, filterItemId = 30,
                  combined = [1, 30]\<rparr>,
       item_data = \<lparr>time = \<lparr>timeSeries = \<lparr>res_data = None, res_status = Fetching\<rparr>,
                            hourly = \<lparr>res_data = None, res_status = Fetching\<rparr>\<rparr>\<rparr>\<rparr>]) = Error"
  by (rule combineTimeSeries_error [where item =
      "\<lparr>item_id = \<lparr>facetItemId = 1, breakdownByItemId = None, filterItemId = 20,
                  combined = [1, 20]\<rparr>,
       item_data = \<lparr>time = \<lparr>timeSeries = \<lparr>res_data = None, res_status = Error\<rparr>,
                            hourly = \<lparr>res_data = None, res_status = Fetching\<rparr>\<rparr>\<rparr>\<rparr>"])
     (simp_all)

section \<open>Grouping nothing\<close>

text \<open>
  Claim C7. For every combined type, when the combined items are \<open>undefined\<close> or the
  empty list, \<open>combineData\<close> returns \<open>undefined\<close> (\<open>None\<close>) and not an empty
  mapping, and so do \<open>getCombinedTimeSeries\<close> and \<open>getCombinedHourly\<close>, which call
  it.
\<close>

theorem combineData_undefined:
  "combineData combine str cType None viewMetric = None \<and>
   combineData combine str cType (Some []) viewMetric = None \<and>
   getCombinedTimeSeries st cnt str cType None viewMetric = None \<and>
   getCombinedTimeSeries st cnt str cType (Some []) viewMetric = None \<and>
   getCombinedHourly st' wrangle str cType None viewMetric = None \<and>
   getCombinedHourly st' wrangle str cType (Some []) viewMetric = None"
  by (simp add: combineData_def getCombinedTimeSeries_def getCombinedHourly_def)

text \<open>For a list with an item the result is a mapping.\<close>

lemma combineData_defined:
  "items \<noteq> [] \<Longrightarrow> combineData combine str cType (Some items) viewMetric \<noteq> None"
  by (simp add: combineData_def Let_def)

section \<open>The join with the stores\<close>

lemma map_filter_ids:
  "map item_id (List.map_filter
      (\<lambda>id. map_option (\<lambda>d. \<lparr>item_id = id, item_data = d\<rparr>) (source (combined id))) ids) =
   filter (\<lambda>id. source (combined id) \<noteq> None) ids"
  by (induction ids) (auto simp add: List.map_filter_simps split: option.splits)

lemma map_filter_data:
  "d \<in> set (List.map_filter
      (\<lambda>id. map_option (\<lambda>d. \<lparr>item_id = id, item_data = d\<rparr>) (source (combined id))) ids) \<Longrightarrow>
   item_id d \<in> set ids \<and> source (combined (item_id d)) = Some (item_data d)"
  by (induction ids) (auto simp add: List.map_filter_simps split: option.splits)

lemma sourceMap_unknown:
  "cType \<notin> set combinedTypes \<Longrightarrow> sourceMap lc lt ct lct cType = None"
  by (simp add: sourceMap_def combinedTypes_def)

text \<open>
  Claim C8. The items that \<open>getCombinedItems\<close> returns are, in order, the combined ids
  whose composite key has a record in the store that the combined type selects; every
  item carries the record stored under its key; there are at most as many items as
  combined ids; and there is no item when the combined type is none of the four.
\<close>

theorem getCombinedItems_joined:
  "map item_id (getCombinedItems typeAndIds lc lt ct lct) =
     filter (\<lambda>id. case sourceMap lc lt ct lct (combinedType typeAndIds) of
                    None \<Rightarrow> False
                  | Some source \<Rightarrow> source (combined id) \<noteq> None)
       (combinedIds typeAndIds) \<and>
   (\<forall>d \<in> set (getCombinedItems typeAndIds lc lt ct lct).
      \<exists>source. sourceMap lc lt ct lct (combinedType typeAndIds) = Some source \<and>
        source (combined (item_id d)) = Some (item_data d)) \<and>
   length (getCombinedItems typeAndIds lc lt ct lct) \<le> length (combinedIds typeAndIds) \<and>
   (combinedType typeAndIds \<notin> set combinedTypes \<longrightarrow>
      getCombinedItems typeAndIds lc lt ct lct = [])"
proof (cases "sourceMap lc lt ct lct (combinedType typeAndIds)")
  case None
  then show ?thesis by (simp add: getCombinedItems_def)
next
  case (Some source)
  have ids: "map item_id (getCombinedItems typeAndIds lc lt ct lct) =
      filter (\<lambda>id. source (combined id) \<noteq> None) (combinedIds typeAndIds)"
    using Some by (simp add: getCombinedItems_def map_filter_ids)
  have "length (map item_id (getCombinedItems typeAndIds lc lt ct lct)) \<le>
      length (combinedIds typeAndIds)"
    unfolding ids by (rule length_filter_le)
  then have len: "length (getCombinedItems typeAndIds lc lt ct lct) \<le>
      length (combinedIds typeAndIds)"
    by simp
  have dat: "\<forall>d \<in> set (getCombinedItems typeAndIds lc lt ct lct).
      source (combined (item_id d)) = Some (item_data d)"
    using Some by (auto simp add: getCombinedItems_def dest: map_filter_data)
  have "combinedType typeAndIds \<in> set combinedTypes"
    using Some sourceMap_unknown [of "combinedType typeAndIds" lc lt ct lct] by auto
  with ids len dat Some show ?thesis by simp
qed

text \<open>
  Two combined ids of which the second has a record, and a combined type without a store.
\<close>

theorem getCombinedItems_joined_witness:
  "map item_id (getCombinedItems
     \<lparr>combinedType = ''location-clientIsp'',
      combinedIds =
        [\<lparr>facetItemId = 1 :: int, breakdownByItemId = None, filterItemId = 10,
          combined = [1, 10 :: int]\<rparr>,
         \<lparr>facetItemId = 1, breakdownByItemId = None, filterItemId = 20, combined = [1, 20]\<rparr>]\<rparr>
     (Some [[1, 20] \<mapsto> ''record'']) (Some Map.empty) None (Some Map.empty)) =
     [\<lparr>facetItemId = 1, breakdownByItemId = None, filterItemId = 20, combined = [1, 20]\<rparr>] \<and>
   getCombinedItems
     \<lparr>combinedType = ''location'',
      combinedIds =
        [\<lparr>facetItemId = 1 :: int, breakdownByItemId = None, filterItemId = 10,
          combined = [1, 10 :: int]\<rparr>]\<rparr>
     (Some [[1, 10] \<mapsto> ''record'']) (Some Map.empty) None (Some Map.empty) = []"
proof
  let ?e = "Some (Map.empty :: int list \<rightharpoonup> string)"
  from getCombinedItems_joined [of
      "\<lparr>combinedType = ''location-clientIsp'',
      combinedIds =
        [\<lparr>facetItemId = 1 :: int, breakdownByItemId = None, filterItemId = 10,
          combined = [1, 10 :: int]\<rparr>,
         \<lparr>facetItemId = 1, breakdownByItemId = None, filterItemId = 20, combined = [1, 20]\<rparr>]\<rparr>"
      "Some [[1, 20 :: int] \<mapsto> ''record'']" ?e None ?e]
  show "map item_id (getCombinedItems
     \<lparr>combinedType = ''location-clientIsp'',
      combinedIds =
        [\<lparr>facetItemId = 1 :: int, breakdownByItemId = None, filterItemId = 10,
          combined = [1, 10 :: int]\<rparr>,
         \<lparr>facetItemId = 1, breakdownByItemId = None, filterItemId = 20, combined = [1, 20]\<rparr>]\<rparr>
     (Some [[1, 20] \<mapsto> ''record'']) ?e None ?e) =
     [\<lparr>facetItemId = 1, breakdownByItemId = None, filterItemId = 20, combined = [1, 20]\<rparr>]"
    by (simp add: sourceMap_def)
  from getCombinedItems_joined [of
      "\<lparr>combinedType = ''location'',
      combinedIds =
        [\<lparr>facetItemId = 1 :: int, breakdownByItemId = None, filterItemId = 10,
          combined = [1, 10 :: int]\<rparr>]\<rparr>"
      "Some [[1, 10 :: int] \<mapsto> ''record'']" ?e None ?e]
  show "getCombinedItems
     \<lparr>combinedType = ''location'',
      combinedIds =
        [\<lparr>facetItemId = 1 :: int, breakdownByItemId = None, filterItemId = 10,
          combined = [1, 10 :: int]\<rparr>]\<rparr>
     (Some [[1, 10] \<mapsto> ''record'']) ?e None ?e = []"
    by (simp add: combinedTypes_def)
qed

section \<open>The top items of a filter, at most twenty\<close>

lemma topFilter_eq:
  assumes "topState (topKeyFromTypes facetType filterType) = Some entry"
  shows "topFilter st topState facetType filterType filterIds =
     Inr \<lparr>tf_data = take 20 (filter (\<lambda>d. d (ft_idKey filterType) \<notin> set (orEmpty filterIds))
                        (orEmpty (res_data entry))),
          tf_status = st (Resource entry)\<rparr>"
  unfolding topFilter_def Let_def using assms by simp

text \<open>
  Claim C9. For every entry of the top store and every list of selected filter ids,
  \<open>topFilter\<close> returns the first twenty of the items that are not selected: its data
  has at most twenty items and none of them has a selected id.
\<close>

theorem topFilter_top20:
  assumes "topState (topKeyFromTypes facetType filterType) = Some entry"
  shows "\<exists>r. topFilter st topState facetType filterType filterIds = Inr r \<and>
           tf_data r =
             take 20 (filter (\<lambda>d. d (ft_idKey filterType) \<notin> set (orEmpty filterIds))
                        (orEmpty (res_data entry))) \<and>
           length (tf_data r) \<le> 20 \<and>
           (\<forall>d \<in> set (tf_data r). d (ft_idKey filterType) \<notin> set (orEmpty filterIds))"
proof (intro exI conjI)
  let ?kept = "take 20 (filter (\<lambda>d. d (ft_idKey filterType) \<notin> set (orEmpty filterIds))
                        (orEmpty (res_data entry)))"
  let ?r = "\<lparr>tf_data = ?kept, tf_status = st (Resource entry)\<rparr>"
  show "topFilter st topState facetType filterType filterIds = Inr ?r"
    using assms by (rule topFilter_eq)
  show "tf_data ?r = ?kept"
    by simp
  show "length (tf_data ?r) \<le> 20"
    by simp
  show "\<forall>d \<in> set (tf_data ?r). d (ft_idKey filterType) \<notin> set (orEmpty filterIds)"
  proof
    fix d
    assume "d \<in> set (tf_data ?r)"
    then have "d \<in> set (filter (\<lambda>d. d (ft_idKey filterType) \<notin> set (orEmpty filterIds))
                        (orEmpty (res_data entry)))"
      by (auto dest: in_set_takeD)
    then show "d (ft_idKey filterType) \<notin> set (orEmpty filterIds)"
      by simp
  qed
qed

text \<open>
  Twenty-five candidates of which three are selected: twenty items are returned and none
  of them is selected.
\<close>

theorem topFilter_top20_witness:
  "\<exists>r. topFilter statusOf
          (\<lambda>topKey. if topKey = ''clientIspsForLocations''
             then Some \<lparr>res_data = Some (map (\<lambda>n key. if key = ''id'' then n else 0)
                          [1, 2, 3, 4, 5, 6, 7, 8, 9, 10, 11, 12, 13, 14, 15, 16, 17, 18, 19, 20,
                           21, 22, 23, 24, 25 :: int]),
                        res_status = Success\<rparr>
             else None)
          locationType \<lparr>ft_value = ''clientIsp'', ft_idKey = ''id''\<rparr> (Some [3, 7, 11]) = Inr r \<and>
        length (tf_data r) = 20 \<and>
        (\<forall>d \<in> set (tf_data r). d ''id'' \<notin> {3, 7, 11})"
proof -
  let ?entry = "\<lparr>res_data = Some (map (\<lambda>n key. if key = ''id'' then n else 0)
                          [1, 2, 3, 4, 5, 6, 7, 8, 9, 10, 11, 12, 13, 14, 15, 16, 17, 18, 19, 20,
                           21, 22, 23, 24, 25 :: int]),
                        res_status = Success\<rparr>"
  let ?top = "\<lambda>topKey. if topKey = ''clientIspsForLocations'' then Some ?entry else None"
  let ?filterType = "\<lparr>ft_value = ''clientIsp'', ft_idKey = ''id''\<rparr>"
  have "?top (topKeyFromTypes locationType ?filterType) = Some ?entry"
    by (simp add: topKeyFromTypes_def)
  then have "\<exists>r. topFilter statusOf ?top locationType ?filterType (Some [3, 7, 11]) = Inr r \<and>
           tf_data r =
             take 20 (filter (\<lambda>d. d (ft_idKey ?filterType) \<notin> set (orEmpty (Some [3, 7, 11])))
                        (orEmpty (res_data ?entry))) \<and>
           length (tf_data r) \<le> 20 \<and>
           (\<forall>d \<in> set (tf_data r). d (ft_idKey ?filterType) \<notin> set (orEmpty (Some [3, 7, 11])))"
    by (rule topFilter_top20)
  then obtain r where r: "topFilter statusOf ?top locationType ?filterType (Some [3, 7, 11]) = Inr r"
    and kept: "tf_data r =
             take 20 (filter (\<lambda>d. d (ft_idKey ?filterType) \<notin> set (orEmpty (Some [3, 7, 11])))
                        (orEmpty (res_data ?entry)))"
    and excl: "\<forall>d \<in> set (tf_data r). d (ft_idKey ?filterType) \<notin> set (orEmpty (Some [3, 7, 11]))"
    by blast
  have "length (tf_data r) = 20"
    unfolding kept by (simp add: orEmpty_def)
  moreover have "\<forall>d \<in> set (tf_data r). d ''id'' \<notin> {3, 7, 11}"
    using excl by (simp add: orEmpty_def)
  ultimately show ?thesis using r by blast
qed

end
